theory Spec2Isabelle
  imports Complex_Main "HOL-Library.Product_Lexorder"
begin
text \<open>
  The program is a dashboard over a spreadsheet of delivery records. It decodes the rows
  of the sheet, normalises each row into a canonical record, looks up coordinates for the
  records that lack them, and aggregates the records into a summary with rankings and into
  trend series. The repository holds two variants of the application, \<open>src/index.tsx\<close>
  and \<open>src/unnamed/part_000\<close>; where they differ, both are given here.
\<close>


section \<open>JavaScript strings, numbers and cell values\<close>

text \<open>
  A JavaScript string is a sequence of UTF-16 code units; a code unit is modelled as a
  natural number. The column headers and labels of the program that are written in Hangul
  are given by their code units. \<open>str\<close> turns an ASCII literal into such a sequence.
\<close>

type_synonym jsstring = "nat list"

definition str :: "string \<Rightarrow> jsstring" where
  "str s = map of_char s"

text \<open>
  A JavaScript number is \<open>NaN\<close>, one of the two infinities or a finite value. A finite
  value is the rational it stands for, and the two zeros are one value (both are falsy and
  both compare equal to 0 in the program). \<open>parseFloat\<close> below gives the exact value of
  the literal it reads; the rounding of an addition belongs to the engine and is a
  parameter of the model (see \<open>host\<close>).
\<close>

datatype jsnum = NaN | PInf | NInf | Fin rat

text \<open>
  The cells of a decoded spreadsheet row: a missing key reads as \<open>undefined\<close>; a cell holds
  a string, a number or a boolean.
\<close>

datatype jsval = VUndefined | VNull | VBool bool | VNum jsnum | VStr jsstring

definition isNaN :: "jsnum \<Rightarrow> bool" where
  "isNaN n = (n = NaN)"

fun js_neg :: "jsnum \<Rightarrow> jsnum" where
  "js_neg NaN = NaN"
| "js_neg PInf = NInf"
| "js_neg NInf = PInf"
| "js_neg (Fin q) = Fin (- q)"

text \<open>The comparison \<open>a <= b\<close> of JavaScript: false as soon as one side is \<open>NaN\<close>.\<close>

fun js_le :: "jsnum \<Rightarrow> jsnum \<Rightarrow> bool" where
  "js_le NaN _ = False"
| "js_le _ NaN = False"
| "js_le NInf _ = True"
| "js_le _ PInf = True"
| "js_le PInf _ = False"
| "js_le _ NInf = False"
| "js_le (Fin a) (Fin b) = (a \<le> b)"

subsection \<open>parseFloat\<close>

text \<open>
  \<open>parseFloat\<close> skips leading white space and line terminators, then reads the longest
  prefix that is a decimal literal: an optional sign, then \<open>Infinity\<close>, or digits with an
  optional fraction and an optional exponent. When no prefix is a literal the result is
  \<open>NaN\<close>.
\<close>

definition isWhiteSpace :: "nat \<Rightarrow> bool" where
  "isWhiteSpace c =
     (c \<in> {9, 10, 11, 12, 13, 32, 160, 5760, 8232, 8233, 8239, 8287, 12288, 65279}
      \<or> (8192 \<le> c \<and> c \<le> 8202))"

definition isDigit :: "nat \<Rightarrow> bool" where
  "isDigit c = (48 \<le> c \<and> c \<le> 57)"

definition digitsValue :: "jsstring \<Rightarrow> nat" where
  "digitsValue ds = foldl (\<lambda>a c. 10 * a + (c - 48)) 0 ds"

definition signedInteger :: "jsstring \<Rightarrow> int option" where
  "signedInteger r =
     (case r of
        [] \<Rightarrow> None
      | c # d \<Rightarrow>
          if c = 43 then
            (if takeWhile isDigit d = [] then None
             else Some (int (digitsValue (takeWhile isDigit d))))
          else if c = 45 then
            (if takeWhile isDigit d = [] then None
             else Some (- int (digitsValue (takeWhile isDigit d))))
          else if takeWhile isDigit r = [] then None
          else Some (int (digitsValue (takeWhile isDigit r))))"

text \<open>The exponent part is optional: without a well-formed one the exponent is 0.\<close>

definition exponentPart :: "jsstring \<Rightarrow> int" where
  "exponentPart r =
     (case r of
        [] \<Rightarrow> 0
      | c # d \<Rightarrow>
          if c = 101 \<or> c = 69 then (case signedInteger d of None \<Rightarrow> 0 | Some e \<Rightarrow> e)
          else 0)"

definition decimalValue :: "jsstring \<Rightarrow> jsstring \<Rightarrow> int \<Rightarrow> rat" where
  "decimalValue ip fp e =
     (let m = of_nat (digitsValue ip) + of_nat (digitsValue fp) / 10 ^ length fp
      in if 0 \<le> e then m * 10 ^ nat e else m / 10 ^ nat (- e))"

definition parseUnsigned :: "jsstring \<Rightarrow> jsnum" where
  "parseUnsigned r =
     (if take 8 r = str ''Infinity'' then PInf
      else
        let ip = takeWhile isDigit r; r1 = dropWhile isDigit r
        in case r1 of
             [] \<Rightarrow> if ip = [] then NaN else Fin (decimalValue ip [] 0)
           | c # r2 \<Rightarrow>
               if c = 46 then
                 (let fp = takeWhile isDigit r2; r3 = dropWhile isDigit r2
                  in if ip = [] \<and> fp = [] then NaN
                     else Fin (decimalValue ip fp (exponentPart r3)))
               else if ip = [] then NaN
               else Fin (decimalValue ip [] (exponentPart r1)))"

definition parseFloat :: "jsstring \<Rightarrow> jsnum" where
  "parseFloat s =
     (let t = dropWhile isWhiteSpace s
      in case t of
           [] \<Rightarrow> NaN
         | c # r \<Rightarrow>
             if c = 43 then parseUnsigned r
             else if c = 45 then js_neg (parseUnsigned r)
             else parseUnsigned t)"

subsection \<open>parseNum\<close>

text \<open>
  \<^verbatim>\<open>
  const parseNum = (val: any): number => {
    if (val === undefined || val === null || val === '') return 0;
    if (typeof val === 'number') return val;
    const cleaned = String(val).replace(/[^0-9.]/g, '');
    const parsed = parseFloat(cleaned);
    return isNaN(parsed) ? 0 : parsed;
  };
  \<close>
  The function is the same in both source files. \<open>cleaned\<close> is the \<open>replace\<close>: it keeps
  the digits and the decimal points, all of them.
\<close>

definition cleaned :: "jsstring \<Rightarrow> jsstring" where
  "cleaned s = filter (\<lambda>c. isDigit c \<or> c = 46) s"

definition parsedOrZero :: "jsstring \<Rightarrow> jsnum" where
  "parsedOrZero s = (let parsed = parseFloat (cleaned s) in if isNaN parsed then Fin 0 else parsed)"

fun parseNum :: "jsval \<Rightarrow> jsnum" where
  "parseNum VUndefined = Fin 0"
| "parseNum VNull = Fin 0"
| "parseNum (VNum n) = n"
| "parseNum (VStr s) = (if s = [] then Fin 0 else parsedOrZero s)"
| "parseNum (VBool b) = parsedOrZero (str (if b then ''true'' else ''false''))"

subsection \<open>Arithmetic, truthiness and conversions\<close>

text \<open>Strict equality \<open>a === b\<close> on numbers: \<open>NaN\<close> equals nothing.\<close>

definition js_eq :: "jsnum \<Rightarrow> jsnum \<Rightarrow> bool" where
  "js_eq a b = (a \<noteq> NaN \<and> a = b)"

text \<open>A number is falsy when it is 0 or \<open>NaN\<close>. \<open>numOrZero n\<close> is \<open>n || 0\<close>.\<close>

definition falsyNum :: "jsnum \<Rightarrow> bool" where
  "falsyNum n = (n = NaN \<or> n = Fin 0)"

definition numOrZero :: "jsnum \<Rightarrow> jsnum" where
  "numOrZero n = (if falsyNum n then Fin 0 else n)"

fun truthy :: "jsval \<Rightarrow> bool" where
  "truthy VUndefined = False"
| "truthy VNull = False"
| "truthy (VBool b) = b"
| "truthy (VNum n) = (\<not> falsyNum n)"
| "truthy (VStr s) = (s \<noteq> [])"

text \<open>\<open>orElse v d\<close> is \<open>v || d\<close>.\<close>

definition orElse :: "jsval \<Rightarrow> jsval \<Rightarrow> jsval" where
  "orElse v d = (if truthy v then v else d)"

text \<open>
  The conversions between numbers and strings, the rounding of arithmetic and the text of
  a built-in function belong to the JavaScript engine. They are a parameter of the model:
  every property below holds for any engine. \<open>numberToString\<close> is the conversion of
  \<open>String(n)\<close>, of a template literal and of a numeric property key; \<open>stringToNumber\<close>
  is \<open>Number(s)\<close>; \<open>roundToNumber q\<close> is the number that an arithmetic operation
  returns when its exact result is \<open>q\<close> (in IEEE-754: the nearest double, or an infinity
  on overflow); \<open>functionSource k\<close> is the string that the built-in function
  \<open>Object.prototype[k]\<close> converts to.
\<close>

record host =
  numberToString :: "jsnum \<Rightarrow> jsstring"
  stringToNumber :: "jsstring \<Rightarrow> jsnum"
  roundToNumber :: "rat \<Rightarrow> jsnum"
  functionSource :: "jsstring \<Rightarrow> jsstring"

text \<open>
  \<open>a + b\<close> and \<open>a - b\<close> on numbers: the special values follow IEEE-754, the sum of
  two finite values is rounded by the engine.
\<close>

fun js_add :: "host \<Rightarrow> jsnum \<Rightarrow> jsnum \<Rightarrow> jsnum" where
  "js_add h NaN _ = NaN"
| "js_add h _ NaN = NaN"
| "js_add h PInf NInf = NaN"
| "js_add h NInf PInf = NaN"
| "js_add h PInf _ = PInf"
| "js_add h _ PInf = PInf"
| "js_add h NInf _ = NInf"
| "js_add h _ NInf = NInf"
| "js_add h (Fin a) (Fin b) = roundToNumber h (a + b)"

definition js_sub :: "host \<Rightarrow> jsnum \<Rightarrow> jsnum \<Rightarrow> jsnum" where
  "js_sub h a b = js_add h a (js_neg b)"


fun toStr :: "host \<Rightarrow> jsval \<Rightarrow> jsstring" where
  "toStr h VUndefined = str ''undefined''"
| "toStr h VNull = str ''null''"
| "toStr h (VBool b) = str (if b then ''true'' else ''false'')"
| "toStr h (VNum n) = numberToString h n"
| "toStr h (VStr s) = s"

text \<open>The conversion of a value to a number, as an arithmetic operator applies it.\<close>

fun toNumber :: "host \<Rightarrow> jsval \<Rightarrow> jsnum" where
  "toNumber h VUndefined = NaN"
| "toNumber h VNull = Fin 0"
| "toNumber h (VBool b) = Fin (if b then 1 else 0)"
| "toNumber h (VNum n) = n"
| "toNumber h (VStr s) = stringToNumber h s"

text \<open>
  \<open>a + b\<close> on values: when one side is a string the two sides are concatenated as
  strings, otherwise they are added as numbers.
\<close>

fun js_plus :: "host \<Rightarrow> jsval \<Rightarrow> jsval \<Rightarrow> jsval" where
  "js_plus h (VStr s) b = VStr (s @ toStr h b)"
| "js_plus h a (VStr t) = VStr (toStr h a @ t)"
| "js_plus h a b = VNum (js_add h (toNumber h a) (toNumber h b))"

text \<open>
  \<open>plain_host\<close> runs the examples: it writes a whole number in decimal digits, as
  ECMAScript does below \<open>10^21\<close>, and the three non-finite values by their names. The
  examples convert no other number; for those it gives the empty string. Its arithmetic
  is exact, as IEEE-754 arithmetic is on the small whole numbers that the examples add,
  and a built-in function converts to \<open>function f() { [native code] }\<close>, where \<open>f\<close>
  is the name of the function: the name of the property, except for \<open>constructor\<close>,
  which holds the function \<open>Object\<close>.
\<close>

function natToString :: "nat \<Rightarrow> jsstring" where
  "natToString n = (if n < 10 then [48 + n] else natToString (n div 10) @ [48 + n mod 10])"
  by pat_completeness auto
termination
  by (relation "measure (\<lambda>n. n)") auto

fun plainNumberToString :: "jsnum \<Rightarrow> jsstring" where
  "plainNumberToString NaN = str ''NaN''"
| "plainNumberToString PInf = str ''Infinity''"
| "plainNumberToString NInf = str ''-Infinity''"
| "plainNumberToString (Fin q) =
     (if of_int \<lfloor>q\<rfloor> = q then
        (if q < 0 then 45 # natToString (nat (- \<lfloor>q\<rfloor>)) else natToString (nat \<lfloor>q\<rfloor>))
      else [])"

definition plain_host :: host where
  "plain_host =
     \<lparr>numberToString = plainNumberToString, stringToNumber = parseFloat, roundToNumber = Fin,
      functionSource =
        (\<lambda>k. str ''function '' @ (if k = str ''constructor'' then str ''Object'' else k)
              @ str ''() { [native code] }'')\<rparr>"

subsection \<open>Objects and arrays\<close>

text \<open>
  A plain object used as a dictionary is the list of its own properties in the order they
  were created, with distinct keys. JavaScript enumerates the keys that are array indices
  (canonical decimal numerals below \<open>2^32 - 1\<close>) first, in ascending numeric order, and
  then the other keys in creation order: this is the order of \<open>Object.keys\<close> and
  \<open>Object.entries\<close>.

  A dictionary that starts as \<open>{}\<close> also inherits the members of \<open>Object.prototype\<close>:
  reading it at one of their names, where it has no property of its own, gives the
  inherited member. These are the built-in functions \<open>prototypeFunctions\<close> and the
  accessor \<open>__proto__\<close>, whose value is \<open>Object.prototype\<close> itself. All of them are
  truthy. \<open>inheritedText h k\<close> is the string that the member inherited at \<open>k\<close>
  converts to, when there is one.
\<close>

type_synonym 'v jsobject = "(jsstring \<times> 'v) list"

definition isArrayIndex :: "jsstring \<Rightarrow> bool" where
  "isArrayIndex k =
     (k \<noteq> [] \<and> list_all isDigit k \<and> (k = [48] \<or> hd k \<noteq> 48) \<and> digitsValue k < 4294967295)"

definition Object_entries :: "'v jsobject \<Rightarrow> (jsstring \<times> 'v) list" where
  "Object_entries obj =
     sort_key (\<lambda>e. digitsValue (fst e)) (filter (\<lambda>e. isArrayIndex (fst e)) obj)
     @ filter (\<lambda>e. \<not> isArrayIndex (fst e)) obj"

definition Object_keys :: "'v jsobject \<Rightarrow> jsstring list" where
  "Object_keys obj = map fst (Object_entries obj)"

definition prototypeFunctions :: "jsstring list" where
  "prototypeFunctions =
     [str ''constructor'', str ''hasOwnProperty'', str ''isPrototypeOf'',
      str ''propertyIsEnumerable'', str ''toLocaleString'', str ''toString'', str ''valueOf'',
      str ''__defineGetter__'', str ''__defineSetter__'', str ''__lookupGetter__'',
      str ''__lookupSetter__'']"

definition inheritedText :: "host \<Rightarrow> jsstring \<Rightarrow> jsstring option" where
  "inheritedText h k =
     (if k = str ''__proto__'' then Some (str ''[object Object]'')
      else if k \<in> set prototypeFunctions then Some (functionSource h k)
      else None)"

text \<open>\<open>obj[k] = v\<close>: an existing property keeps its place, a new one goes last.\<close>

fun obj_set :: "'v jsobject \<Rightarrow> jsstring \<Rightarrow> 'v \<Rightarrow> 'v jsobject" where
  "obj_set [] k v = [(k, v)]"
| "obj_set ((k', v') # rest) k v =
     (if k' = k then (k, v) # rest else (k', v') # obj_set rest k v)"

text \<open>
  \<open>Array.from(new Set(xs))\<close>: the distinct elements in the order of their first
  occurrence.
\<close>

fun uniqueOf :: "'a list \<Rightarrow> 'a list" where
  "uniqueOf [] = []"
| "uniqueOf (x # xs) = x # removeAll x (uniqueOf xs)"

text \<open>
  \<open>xs.sort(cmp)\<close> is a stable sort; a comparator result that is \<open>NaN\<close> counts as 0.
  The model is the stable insertion sort: an element moves behind another one only when
  the comparator says so with a positive number.
\<close>

definition js_positive :: "jsnum \<Rightarrow> bool" where
  "js_positive n = (case n of PInf \<Rightarrow> True | Fin q \<Rightarrow> 0 < q | _ \<Rightarrow> False)"

fun sort_insert :: "('a \<Rightarrow> 'a \<Rightarrow> jsnum) \<Rightarrow> 'a \<Rightarrow> 'a list \<Rightarrow> 'a list" where
  "sort_insert cmp x [] = [x]"
| "sort_insert cmp x (y # ys) =
     (if js_positive (cmp x y) then y # sort_insert cmp x ys else x # y # ys)"

definition Array_sort :: "('a \<Rightarrow> 'a \<Rightarrow> jsnum) \<Rightarrow> 'a list \<Rightarrow> 'a list" where
  "Array_sort cmp xs = foldr (sort_insert cmp) xs []"

section \<open>The record normaliser\<close>

subsection \<open>Resolving a field by its aliases\<close>

text \<open>
  \<^verbatim>\<open>
  const normalizeKey = (key: string) =>
    key.toString().toLowerCase().replace(/[^a-z0-9\u{AC00}-\u{D7A3}]/g, '');
  \<close>
  (the source writes the two ends of the last range as the Hangul syllables themselves). \<open>toLowerCase\<close> is given on
  the code units whose lower case the \<open>replace\<close> can keep: the ASCII capitals, U+0130
  (lower case \<open>i\<close> followed by U+0307) and U+212A (lower case \<open>k\<close>). Every other code unit
  is left as it is: its lower case is outside the kept set whenever the code unit itself is,
  so the \<open>replace\<close> deletes it in both cases.
\<close>

definition lowerUnit :: "nat \<Rightarrow> jsstring" where
  "lowerUnit c =
     (if 65 \<le> c \<and> c \<le> 90 then [c + 32]
      else if c = 304 then [105, 775]
      else if c = 8490 then [107]
      else [c])"

definition toLowerCase :: "jsstring \<Rightarrow> jsstring" where
  "toLowerCase s = concat (map lowerUnit s)"

definition keptInKey :: "nat \<Rightarrow> bool" where
  "keptInKey c = ((97 \<le> c \<and> c \<le> 122) \<or> isDigit c \<or> (44032 \<le> c \<and> c \<le> 55203))"

definition normalizeKey :: "jsstring \<Rightarrow> jsstring" where
  "normalizeKey key = filter keptInKey (toLowerCase key)"

text \<open>
  \<^verbatim>\<open>
  const getVal = (row: any, aliases: string[]) => {
    const rowKeys = Object.keys(row);
    const normalizedAliases = aliases.map(normalizeKey);
    const foundKey = rowKeys.find(k => normalizedAliases.includes(normalizeKey(k)));
    return foundKey ? row[foundKey] : undefined;
  };
  \<close>
  A found key that is the empty string is falsy, so the result is \<open>undefined\<close> then.
\<close>

definition getVal :: "jsval jsobject \<Rightarrow> jsstring list \<Rightarrow> jsval" where
  "getVal row aliases =
     (let rowKeys = Object_keys row;
          normalizedAliases = map normalizeKey aliases
      in case find (\<lambda>k. normalizeKey k \<in> set normalizedAliases) rowKeys of
           None \<Rightarrow> VUndefined
         | Some foundKey \<Rightarrow>
             if foundKey = [] then VUndefined
             else (case map_of row foundKey of None \<Rightarrow> VUndefined | Some v \<Rightarrow> v))"

subsection \<open>The Hangul headers and labels\<close>

text \<open>Each constant is one header or label of the source, by its UTF-16 code units.\<close>

definition ko_project :: jsstring where "ko_project = [54532, 47196, 51229, 53944, 47749]"
definition ko_site :: jsstring where "ko_site = [54788, 51109, 47749]"
definition ko_year :: jsstring where "ko_year = [50672, 46020]"
definition ko_nyeon :: jsstring where "ko_nyeon = [45380]"
definition ko_nyeondo :: jsstring where "ko_nyeondo = [45380, 46020]"
definition ko_month :: jsstring where "ko_month = [50900]"
definition ko_progress :: jsstring where "ko_progress = [51652, 54665, 45236, 50857]"
definition ko_status :: jsstring where "ko_status = [49345, 53468]"
definition ko_address :: jsstring where "ko_address = [51452, 49548]"
definition ko_detail_address :: jsstring where "ko_detail_address = [49345, 49464, 51452, 49548]"
definition ko_latitude :: jsstring where "ko_latitude = [50948, 46020]"
definition ko_longitude :: jsstring where "ko_longitude = [44221, 46020]"
definition ko_designer :: jsstring where "ko_designer = [49444, 44228, 49324]"
definition ko_design :: jsstring where "ko_design = [49444, 44228]"
definition ko_builder :: jsstring where "ko_builder = [44148, 49444, 49324]"
definition ko_contractor :: jsstring where "ko_contractor = [49884, 44277, 49324]"
definition ko_contract :: jsstring where "ko_contract = [49884, 44277]"
definition ko_product :: jsstring where "ko_product = [51228, 54408, 47749]"
definition ko_item :: jsstring where "ko_item = [54408, 47749]"
definition ko_volume :: jsstring where "ko_volume = [47932, 47049]"
definition ko_count :: jsstring where "ko_count = [49688, 47049]"
definition ko_spec_amount :: jsstring where "ko_spec_amount = [49828, 54169, 47049]"
definition ko_spec :: jsstring where "ko_spec = [49828, 54169]"
definition ko_total :: jsstring where "ko_total = [54633, 44228]"

text \<open>The catch-all label of the rankings (U+AE30 U+D0C0, "other").\<close>

definition ko_other :: jsstring where "ko_other = [44592, 53440]"

subsection \<open>Canonical records\<close>

text \<open>
  The interface \<open>ExcelRow\<close>. The field \<open>id\<close> is \<open>row_id\<close> here; the optional field
  \<open>isGeocoded\<close> is never written by the program and is left out. \<open>None\<close> is \<open>null\<close>.
\<close>

record ExcelRow =
  row_id :: jsstring
  project_name :: jsstring
  year :: jsnum
  month :: jsnum
  progress :: jsstring
  address :: jsstring
  latitude :: "jsnum option"
  longitude :: "jsnum option"
  designer :: jsstring
  constructor :: jsstring
  product_name :: jsstring
  quantity :: jsnum
  spec_amount :: jsnum

text \<open>\<open>numOrNull n\<close> is \<open>n || null\<close>.\<close>

definition numOrNull :: "jsnum \<Rightarrow> jsnum option" where
  "numOrNull n = (if falsyNum n then None else Some n)"

definition project_name_aliases :: "jsstring list" where
  "project_name_aliases = [str ''project_name'', ko_project, ko_site, str ''PJT'', str ''project'']"

definition latitude_aliases :: "jsstring list" where
  "latitude_aliases = [str ''latitude'', ko_latitude, str ''lat'', str ''y'', str ''latitude_val'']"

definition longitude_aliases :: "jsstring list" where
  "longitude_aliases =
     [str ''longitude'', ko_longitude, str ''lng'', str ''long'', str ''x'', str ''longitude_val'']"

definition quantity_aliases :: "jsstring list" where
  "quantity_aliases = [str ''quantity'', ko_volume, ko_count]"

definition spec_amount_aliases :: "jsstring list" where
  "spec_amount_aliases = [str ''spec_amount'', ko_spec_amount, ko_spec, ko_total, str ''amount'']"

definition address_aliases :: "jsstring list" where
  "address_aliases = [str ''address'', ko_address, ko_detail_address, str ''addr'']"

text \<open>
  The callback of \<open>json.map\<close> in \<open>handleFileUpload\<close> of \<open>src/index.tsx\<close>:
  \<^verbatim>\<open>
  (row, idx) => ({
    id: `row-${idx}`,
    project_name: String(getVal(row, ['project_name', ..., 'PJT', 'project']) || ''),
    year: parseNum(getVal(row, ['year', ...])),
    month: parseNum(getVal(row, ['month', ...])),
    progress: String(getVal(row, ['progress', ..., 'status']) || '-'),
    address: String(getVal(row, ['address', ..., 'addr']) || '-'),
    latitude: parseFloat(String(getVal(row, ['latitude', ...]) || '')) || null,
    longitude: parseFloat(String(getVal(row, ['longitude', ...]) || '')) || null,
    designer: String(getVal(row, ['designer', ...]) || '-'),
    constructor: String(getVal(row, ['constructor', ...]) || '-'),
    product_name: String(getVal(row, ['product_name', ...]) || '-'),
    quantity: parseNum(getVal(row, ['quantity', ...])),
    spec_amount: parseNum(getVal(row, ['spec_amount', ..., 'amount'])),
  })
  \<close>
\<close>

definition parseRow :: "host \<Rightarrow> nat \<Rightarrow> jsval jsobject \<Rightarrow> ExcelRow" where
  "parseRow h idx row =
     \<lparr>row_id = str ''row-'' @ numberToString h (Fin (of_nat idx)),
      project_name = toStr h (orElse (getVal row project_name_aliases) (VStr [])),
      year = parseNum (getVal row [str ''year'', ko_year, ko_nyeon, ko_nyeondo]),
      month = parseNum (getVal row [str ''month'', ko_month]),
      progress =
        toStr h (orElse (getVal row [str ''progress'', ko_progress, ko_status, str ''status''])
                        (VStr (str ''-''))),
      address = toStr h (orElse (getVal row address_aliases) (VStr (str ''-''))),
      latitude =
        numOrNull (parseFloat (toStr h (orElse (getVal row latitude_aliases) (VStr [])))),
      longitude =
        numOrNull (parseFloat (toStr h (orElse (getVal row longitude_aliases) (VStr [])))),
      designer =
        toStr h (orElse (getVal row [str ''designer'', ko_designer, ko_design])
                        (VStr (str ''-''))),
      constructor =
        toStr h (orElse (getVal row [str ''constructor'', ko_builder, ko_contractor, ko_contract])
                        (VStr (str ''-''))),
      product_name =
        toStr h (orElse (getVal row [str ''product_name'', ko_product, ko_item])
                        (VStr (str ''-''))),
      quantity = parseNum (getVal row quantity_aliases),
      spec_amount = parseNum (getVal row spec_amount_aliases)\<rparr>"

text \<open>
  The array \<open>parsed\<close> of \<open>handleFileUpload\<close>: every decoded row is mapped with its index,
  then \<open>.filter(r => r.project_name)\<close> keeps the records whose project name is truthy,
  that is, not the empty string. This array is what \<open>handleFileUpload\<close> hands to
  \<open>processAndSaveData\<close>.
\<close>

definition handleFileUpload_parsed :: "host \<Rightarrow> jsval jsobject list \<Rightarrow> ExcelRow list" where
  "handleFileUpload_parsed h json =
     filter (\<lambda>r. project_name r \<noteq> [])
       (map (\<lambda>(idx, row). parseRow h idx row) (enumerate 0 json))"




section \<open>Enrichment: geocoding the records without coordinates\<close>

text \<open>
  \<^verbatim>\<open>
  const geocodeAddress = async (address: string) => {
    try {
      const response = await fetch(
        `https://nominatim.openstreetmap.org/search?format=json&q=${encodeURIComponent(address)}&limit=1`,
        { headers: { 'Accept-Language': ... } });
      if (!response.ok) return null;
      const data = await response.json();
      if (data && data.length > 0)
        return { lat: parseFloat(data[0].lat), lon: parseFloat(data[0].lon) };
    } catch (e) { console.error("Geocoding error:", address, e); }
    return null;
  };
  \<close>
  The external call is the \<open>fetch\<close>; a request is named by the URL that is fetched.
  The URL is built first, with \<open>encodeURIComponent\<close>. That function keeps the
  unreserved ASCII characters and writes every other code point as the percent-encoded
  octets of its UTF-8 form; on a string with an unpaired surrogate it throws. The throw
  happens inside the \<open>try\<close> before \<open>fetch\<close> is called: no request is sent and the result
  is \<open>null\<close>.
\<close>

definition uriUnescaped :: "nat \<Rightarrow> bool" where
  "uriUnescaped c =
     ((65 \<le> c \<and> c \<le> 90) \<or> (97 \<le> c \<and> c \<le> 122) \<or> isDigit c
      \<or> c \<in> {45, 95, 46, 33, 126, 42, 39, 40, 41})"

definition isLeadSurrogate :: "nat \<Rightarrow> bool" where
  "isLeadSurrogate c = (55296 \<le> c \<and> c \<le> 56319)"

definition isTrailSurrogate :: "nat \<Rightarrow> bool" where
  "isTrailSurrogate c = (56320 \<le> c \<and> c \<le> 57343)"

definition utf8 :: "nat \<Rightarrow> nat list" where
  "utf8 cp =
     (if cp < 128 then [cp]
      else if cp < 2048 then [192 + cp div 64, 128 + cp mod 64]
      else if cp < 65536 then [224 + cp div 4096, 128 + (cp div 64) mod 64, 128 + cp mod 64]
      else [240 + cp div 262144, 128 + (cp div 4096) mod 64, 128 + (cp div 64) mod 64,
            128 + cp mod 64])"

definition hexDigit :: "nat \<Rightarrow> nat" where
  "hexDigit n = (if n < 10 then 48 + n else 55 + n)"

definition percentEncoded :: "nat list \<Rightarrow> jsstring" where
  "percentEncoded octets = concat (map (\<lambda>b. [37, hexDigit (b div 16), hexDigit (b mod 16)]) octets)"

text \<open>\<open>None\<close> is the thrown \<open>URIError\<close>.\<close>

fun encodeURIComponent :: "jsstring \<Rightarrow> jsstring option" where
  "encodeURIComponent [] = Some []"
| "encodeURIComponent (c # rest) =
     (if uriUnescaped c then map_option ((#) c) (encodeURIComponent rest)
      else if isTrailSurrogate c then None
      else if isLeadSurrogate c then
        (case rest of
           [] \<Rightarrow> None
         | d # rest' \<Rightarrow>
             if isTrailSurrogate d then
               map_option
                 ((@) (percentEncoded (utf8 ((c - 55296) * 1024 + (d - 56320) + 65536))))
                 (encodeURIComponent rest')
             else None)
      else map_option ((@) (percentEncoded (utf8 c))) (encodeURIComponent rest))"

definition requestUrl :: "jsstring \<Rightarrow> jsstring option" where
  "requestUrl addr =
     map_option
       (\<lambda>q. str ''https://nominatim.openstreetmap.org/search?format=json&q='' @ q
             @ str ''&limit=1'')
       (encodeURIComponent addr)"

text \<open>
  The geocoding service is outside the program. \<open>service url\<close> is what the request for
  \<open>url\<close> comes to: a request that fails after it was sent (\<open>fetch\<close> rejects, or the body
  is not JSON), a response that is not \<open>ok\<close>, or a JSON array whose elements carry
  \<open>lat\<close> and \<open>lon\<close> as strings.

  \<open>geocodeAddress service addr sent\<close> gives the result of the lookup and the list of
  the requests sent so far, oldest first, which the lookup extends when it calls \<open>fetch\<close>.
\<close>

datatype response = RequestFailed | NotOk | Json "(jsstring \<times> jsstring) list"

type_synonym coords = "jsnum \<times> jsnum"

definition geocodeAddress ::
    "(jsstring \<Rightarrow> response) \<Rightarrow> jsstring \<Rightarrow> jsstring list \<Rightarrow> coords option \<times> jsstring list" where
  "geocodeAddress service addr sent =
     (case requestUrl addr of
        None \<Rightarrow> (None, sent)
      | Some url \<Rightarrow>
          (case service url of
             RequestFailed \<Rightarrow> (None, sent @ [url])
           | NotOk \<Rightarrow> (None, sent @ [url])
           | Json data \<Rightarrow>
               (case data of
                  [] \<Rightarrow> (None, sent @ [url])
                | (lat, lon) # _ \<Rightarrow> (Some (parseFloat lat, parseFloat lon), sent @ [url]))))"

text \<open>\<open>missing c\<close> is \<open>!c\<close> for a coordinate: \<open>null\<close>, 0 and \<open>NaN\<close> are falsy.\<close>

definition missing :: "jsnum option \<Rightarrow> bool" where
  "missing c = (case c of None \<Rightarrow> True | Some n \<Rightarrow> falsyNum n)"

text \<open>
  The filter of \<open>rowsToGeocode\<close> in \<open>src/index.tsx\<close>:
  \<^verbatim>\<open>
  d => (!d.latitude || !d.longitude) && d.address && d.address !== '-' && d.address.length > 5
  \<close>
  and in \<open>src/unnamed/part_000\<close>:
  \<^verbatim>\<open>
  d => (!d.latitude || !d.longitude) && d.address && d.address.length > 5
  \<close>
\<close>

definition isCandidate :: "ExcelRow \<Rightarrow> bool" where
  "isCandidate d =
     ((missing (latitude d) \<or> missing (longitude d)) \<and> address d \<noteq> []
      \<and> address d \<noteq> str ''-'' \<and> length (address d) > 5)"

definition isCandidate_part000 :: "ExcelRow \<Rightarrow> bool" where
  "isCandidate_part000 d =
     ((missing (latitude d) \<or> missing (longitude d)) \<and> address d \<noteq> []
      \<and> length (address d) > 5)"

text \<open>
  The loop over \<open>uniqueAddresses\<close>:
  \<^verbatim>\<open>
  for (let i = 0; i < uniqueAddresses.length; i++) {
    const addr = uniqueAddresses[i];
    ...
    const coords = await geocodeAddress(addr);
    if (coords) geoCache[addr] = coords;
    await new Promise(r => setTimeout(r, 1100));
  }
  \<close>
  The model follows the requests of a run. The result of a lookup goes into \<open>geoCache\<close>
  and from there into the records handed to \<open>setData\<close>; neither decides a later request,
  and they are not part of the state here, nor are the waiting between two requests and
  the progress display.
\<close>

fun geocodeLoop :: "(jsstring \<Rightarrow> response) \<Rightarrow> jsstring list \<Rightarrow> jsstring list \<Rightarrow> jsstring list" where
  "geocodeLoop service [] sent = sent"
| "geocodeLoop service (addr # rest) sent =
     geocodeLoop service rest (snd (geocodeAddress service addr sent))"

text \<open>
  \<open>processAndSaveData\<close>, as far as its requests go: the result is the list of the
  requests that the run sends. Without a candidate the function returns before the loop.
  \<^verbatim>\<open>
  const rowsToGeocode = rawData.filter(...);
  if (rowsToGeocode.length === 0) { setData(rawData); ...; return; }
  const uniqueAddresses = Array.from(new Set(rowsToGeocode.map(d => d.address)));
  const geoCache: Record<string, {lat: number, lon: number}> = {};
  for (...) { ... }
  \<close>
\<close>

definition processAndSaveData :: "(jsstring \<Rightarrow> response) \<Rightarrow> ExcelRow list \<Rightarrow> jsstring list" where
  "processAndSaveData service rawData =
     (let rowsToGeocode = filter isCandidate rawData
      in if rowsToGeocode = [] then []
         else
           let uniqueAddresses = uniqueOf (map address rowsToGeocode)
           in geocodeLoop service uniqueAddresses [])"

definition processAndSaveData_part000 ::
    "(jsstring \<Rightarrow> response) \<Rightarrow> ExcelRow list \<Rightarrow> jsstring list" where
  "processAndSaveData_part000 service rawData =
     (let rowsToGeocode = filter isCandidate_part000 rawData
      in if rowsToGeocode = [] then []
         else
           let uniqueAddresses = uniqueOf (map address rowsToGeocode)
           in geocodeLoop service uniqueAddresses [])"

section \<open>Aggregation\<close>

text \<open>
  \<^verbatim>\<open>
  data.filter(d => {
    const yearMatch = selectedYear === 0 || d.year === selectedYear;
    const monthMatch = selectedMonth === 0 || d.month === selectedMonth;
    return yearMatch && monthMatch;
  })
  \<close>
\<close>

definition filteredData :: "ExcelRow list \<Rightarrow> jsnum \<Rightarrow> jsnum \<Rightarrow> ExcelRow list" where
  "filteredData data selectedYear selectedMonth =
     filter (\<lambda>d. (js_eq selectedYear (Fin 0) \<or> js_eq (year d) selectedYear)
                \<and> (js_eq selectedMonth (Fin 0) \<or> js_eq (month d) selectedMonth)) data"

text \<open>
  \<open>m[k] = (m[k] || 0) + v\<close> on a dictionary that started as \<open>{}\<close>, for a number
  \<open>v\<close>. Where the dictionary has a property of its own at \<open>k\<close>, that value or 0 is
  added to \<open>v\<close>. Where it has none and inherits no member at \<open>k\<close>, the read gives
  \<open>undefined\<close> and 0 is added to \<open>v\<close>. Where it inherits a member at \<open>k\<close>, the
  member is truthy and \<open>+\<close> concatenates its text with the string of \<open>v\<close>; the
  assignment then creates a property of the dictionary's own, except at \<open>__proto__\<close>,
  where the assignment of a string changes nothing.
\<close>

definition addTo :: "host \<Rightarrow> jsval jsobject \<Rightarrow> jsstring \<Rightarrow> jsnum \<Rightarrow> jsval jsobject" where
  "addTo h m k v =
     (case map_of m k of
        Some cur \<Rightarrow> obj_set m k (js_plus h (orElse cur (VNum (Fin 0))) (VNum v))
      | None \<Rightarrow>
          (case inheritedText h k of
             None \<Rightarrow> obj_set m k (js_plus h (VNum (Fin 0)) (VNum v))
           | Some t \<Rightarrow>
               if k = str ''__proto__'' then m
               else obj_set m k (VStr (t @ numberToString h v))))"

text \<open>
  The bucket of a constructor or designer. In \<open>src/index.tsx\<close>:
  \<open>d.constructor && d.constructor !== '-' ? d.constructor : <other>\<close>; in
  \<open>src/unnamed/part_000\<close>: \<open>d.constructor || <other>\<close>.
\<close>

definition bucket :: "jsstring \<Rightarrow> jsstring" where
  "bucket x = (if x \<noteq> [] \<and> x \<noteq> str ''-'' then x else ko_other)"

definition bucket_part000 :: "jsstring \<Rightarrow> jsstring" where
  "bucket_part000 x = (if x \<noteq> [] then x else ko_other)"

text \<open>
  The amount of a ranked entity is what the dictionary holds for it: a number, or a string
  when the \<open>+\<close> above concatenated.
\<close>

record ranked =
  name :: jsstring
  amount :: jsval

record Summary =
  siteCount :: nat
  totalSpec :: jsnum
  top3Cons :: "ranked list"
  top3Des :: "ranked list"

text \<open>
  \<open>Object.entries(m).sort((a, b) => b[1] - a[1]).slice(0, 5).map(([name, amount]) =>
  ({ name, amount }))\<close>
\<close>

definition byAmountDesc :: "host \<Rightarrow> jsstring \<times> jsval \<Rightarrow> jsstring \<times> jsval \<Rightarrow> jsnum" where
  "byAmountDesc h a b = js_sub h (toNumber h (snd b)) (toNumber h (snd a))"

definition top5 :: "host \<Rightarrow> jsval jsobject \<Rightarrow> ranked list" where
  "top5 h m =
     map (\<lambda>(n, a). \<lparr>name = n, amount = a\<rparr>)
       (take 5 (Array_sort (byAmountDesc h) (Object_entries m)))"

text \<open>
  \<open>summary\<close> of \<open>src/index.tsx\<close>:
  \<^verbatim>\<open>
  const uniqueProjects = new Set(filteredData.map(d => d.project_name));
  const totalSpec = filteredData.reduce((sum, d) => sum + (Number(d.spec_amount) || 0), 0);
  const consMap: Record<string, number> = {};
  const desMap: Record<string, number> = {};
  filteredData.forEach(d => {
    const c = d.constructor && d.constructor !== '-' ? d.constructor : <other>;
    const ds = d.designer && d.designer !== '-' ? d.designer : <other>;
    consMap[c] = (consMap[c] || 0) + (Number(d.spec_amount) || 0);
    desMap[ds] = (desMap[ds] || 0) + (Number(d.spec_amount) || 0);
  });
  const top3Cons = Object.entries(consMap).sort(...).slice(0, 5).map(...);
  const top3Des = Object.entries(desMap).sort(...).slice(0, 5).map(...);
  return { siteCount: uniqueProjects.size, totalSpec, top3Cons, top3Des };
  \<close>
\<close>

definition summaryStep ::
    "host \<Rightarrow> jsval jsobject \<times> jsval jsobject \<Rightarrow> ExcelRow
      \<Rightarrow> jsval jsobject \<times> jsval jsobject" where
  "summaryStep h maps d =
     (let c = bucket (constructor d); ds = bucket (designer d)
      in (addTo h (fst maps) c (numOrZero (spec_amount d)),
          addTo h (snd maps) ds (numOrZero (spec_amount d))))"

definition summary :: "host \<Rightarrow> ExcelRow list \<Rightarrow> Summary" where
  "summary h fd =
     (let uniqueProjects = uniqueOf (map project_name fd);
          total = foldl (\<lambda>sum d. js_add h sum (numOrZero (spec_amount d))) (Fin 0) fd;
          maps = foldl (summaryStep h) ([], []) fd
      in \<lparr>siteCount = length uniqueProjects, totalSpec = total,
          top3Cons = top5 h (fst maps), top3Des = top5 h (snd maps)\<rparr>)"

text \<open>
  \<open>summary\<close> of \<open>src/unnamed/part_000\<close>: the same, but with
  \<open>const c = d.constructor || <other>; const ds = d.designer || <other>;\<close> and
  \<open>d.spec_amount || 0\<close> for the amount.
\<close>

definition summaryStep_part000 ::
    "host \<Rightarrow> jsval jsobject \<times> jsval jsobject \<Rightarrow> ExcelRow
      \<Rightarrow> jsval jsobject \<times> jsval jsobject" where
  "summaryStep_part000 h maps d =
     (let c = bucket_part000 (constructor d); ds = bucket_part000 (designer d)
      in (addTo h (fst maps) c (numOrZero (spec_amount d)),
          addTo h (snd maps) ds (numOrZero (spec_amount d))))"

definition summary_part000 :: "host \<Rightarrow> ExcelRow list \<Rightarrow> Summary" where
  "summary_part000 h fd =
     (let uniqueProjects = uniqueOf (map project_name fd);
          total = foldl (\<lambda>sum d. js_add h sum (numOrZero (spec_amount d))) (Fin 0) fd;
          maps = foldl (summaryStep_part000 h) ([], []) fd
      in \<lparr>siteCount = length uniqueProjects, totalSpec = total,
          top3Cons = top5 h (fst maps), top3Des = top5 h (snd maps)\<rparr>)"

text \<open>
  \<open>trends\<close> of \<open>src/index.tsx\<close>, with \<open>stats.years\<close>:
  \<^verbatim>\<open>
  const years = Array.from(new Set(data.map(d => d.year))).sort((a, b) => a - b);

  const yearTrendMap: Record<number, number> = {};
  data.forEach(d => { yearTrendMap[d.year] = (yearTrendMap[d.year] || 0) + d.spec_amount; });
  const yearTrend = Object.entries(yearTrendMap)
    .sort((a, b) => Number(a[0]) - Number(b[0]))
    .map(([l, v]) => ({ label: `${l}<year>`, value: v }));
  const monthTrendMap: Record<number, number> = {};
  const yr = selectedYear === 0 ? (stats.years[stats.years.length-1] || 0) : selectedYear;
  data.filter(d => d.year === yr).forEach(d => {
    monthTrendMap[d.month] = (monthTrendMap[d.month] || 0) + d.spec_amount; });
  const monthTrend = Array.from({ length: 12 }, (_, i) =>
    ({ label: `${i + 1}<month>`, value: monthTrendMap[i + 1] || 0 }));
  const dMap: Record<string, number> = {};
  filteredData.forEach(d => {
    const name = d.designer && d.designer !== '-' ? d.designer : <other>;
    dMap[name] = (dMap[name] || 0) + d.spec_amount;
  });
  const designerTrend = Object.entries(dMap).sort((a, b) => b[1] - a[1]).slice(0, 5)
    .map(([l, v]) => ({ label: l, value: v }));
  return { yearTrend, monthTrend, designerTrend };
  \<close>
  A numeric property key is the string of the number. The keys and labels \<open>i + 1\<close> of
  the month trend are the whole numbers 1 to 12, whose string is their decimal numeral
  in every engine; no plain object inherits a member at a numeral.
\<close>

record point =
  point_label :: jsstring
  point_value :: jsval

record Trends =
  yearTrend :: "point list"
  monthTrend :: "point list"
  designerTrend :: "point list"

definition stats_years :: "host \<Rightarrow> ExcelRow list \<Rightarrow> jsnum list" where
  "stats_years h data = Array_sort (\<lambda>a b. js_sub h a b) (uniqueOf (map year data))"

definition trends :: "host \<Rightarrow> ExcelRow list \<Rightarrow> ExcelRow list \<Rightarrow> jsnum \<Rightarrow> Trends" where
  "trends h data fd selectedYear =
     (let yearTrendMap =
            foldl (\<lambda>m d. addTo h m (numberToString h (year d)) (spec_amount d)) [] data;
          yearTrend =
            map (\<lambda>(l, v). \<lparr>point_label = l @ ko_nyeon, point_value = v\<rparr>)
              (Array_sort (\<lambda>a b. js_sub h (stringToNumber h (fst a)) (stringToNumber h (fst b)))
                 (Object_entries yearTrendMap));
          years = stats_years h data;
          yr = (if js_eq selectedYear (Fin 0)
                then (if years = [] then Fin 0 else numOrZero (last years))
                else selectedYear);
          monthTrendMap =
            foldl (\<lambda>m d. addTo h m (numberToString h (month d)) (spec_amount d)) []
              (filter (\<lambda>d. js_eq (year d) yr) data);
          monthTrend =
            map (\<lambda>i. \<lparr>point_label = natToString (i + 1) @ ko_month,
                      point_value =
                        (case map_of monthTrendMap (natToString (i + 1)) of
                           None \<Rightarrow> VNum (Fin 0)
                         | Some v \<Rightarrow> orElse v (VNum (Fin 0)))\<rparr>) [0..<12];
          dMap = foldl (\<lambda>m d. addTo h m (bucket (designer d)) (spec_amount d)) [] fd;
          designerTrend =
            map (\<lambda>(l, v). \<lparr>point_label = l, point_value = v\<rparr>)
              (take 5 (Array_sort (byAmountDesc h) (Object_entries dMap)))
      in \<lparr>yearTrend = yearTrend, monthTrend = monthTrend, designerTrend = designerTrend\<rparr>)"

section \<open>The ranking as the specification words it\<close>






section \<open>Example inputs\<close>

text \<open>
  A decoded row whose latitude cell is a number in text and whose longitude cell is not a
  number. The headers are the Hangul ones for the site name, the latitude, the longitude
  and the address.
\<close>

definition row_half :: "jsval jsobject" where
  "row_half =
     [(ko_site, VStr (str ''P1'')), (ko_latitude, VStr (str ''37.5'')),
      (ko_longitude, VStr (str ''abc'')), (ko_address, VStr (str ''Seoul City Hall''))]"



text \<open>
  Rows whose latitude cell is the text \<open>0\<close>: one with a full address and a longitude
  cell that is \<open>0.0\<close>, one without an address cell.
\<close>

definition row_zero :: "jsval jsobject" where
  "row_zero =
     [(ko_site, VStr (str ''P1'')), (ko_latitude, VStr (str ''0'')),
      (ko_longitude, VStr (str ''0.0'')), (ko_address, VStr (str ''Null Island Pier''))]"

definition row_zero_no_address :: "jsval jsobject" where
  "row_zero_no_address =
     [(ko_site, VStr (str ''P1'')), (ko_latitude, VStr (str ''0'')),
      (ko_longitude, VStr (str ''127.5''))]"

text \<open>A row whose quantity and total cells are the number \<open>-5\<close>.\<close>

definition row_negative :: "jsval jsobject" where
  "row_negative =
     [(ko_site, VStr (str ''P1'')), (ko_volume, VNum (Fin (- 5))), (ko_total, VNum (Fin (- 5)))]"

text \<open>
  Canonical records for the examples. \<open>no_coords i\<close> is the \<open>i\<close>-th record of a project
  at one address, without coordinates; \<open>sale c ds a\<close> is a record of the constructor
  \<open>c\<close> and the designer \<open>ds\<close> with the amount \<open>a\<close>.
\<close>

definition no_coords :: "nat \<Rightarrow> ExcelRow" where
  "no_coords i =
     \<lparr>row_id = str ''row-'' @ natToString i, project_name = str ''P1'', year = Fin 2024,
      month = Fin 5, progress = str ''-'', address = str ''Seoul City Hall'', latitude = None,
      longitude = None, designer = str ''-'', constructor = str ''-'', product_name = str ''-'',
      quantity = Fin 0, spec_amount = Fin 0\<rparr>"

definition sale :: "jsstring \<Rightarrow> jsstring \<Rightarrow> rat \<Rightarrow> ExcelRow" where
  "sale c ds a =
     \<lparr>row_id = str ''row-0'', project_name = str ''P1'', year = Fin 2024, month = Fin 5,
      progress = str ''-'', address = str ''-'', latitude = None, longitude = None,
      designer = ds, constructor = c, product_name = str ''-'', quantity = Fin 1,
      spec_amount = Fin a\<rparr>"




text \<open>
  Two records without coordinates at one address that begins with an unpaired lead
  surrogate (the code unit U+D800) followed by \<open>Seoul\<close>.
\<close>

definition unpaired_address :: jsstring where
  "unpaired_address = 55296 # str ''Seoul''"

definition unpaired_records :: "ExcelRow list" where
  "unpaired_records =
     [(no_coords 0)\<lparr>address := unpaired_address\<rparr>, (no_coords 1)\<lparr>address := unpaired_address\<rparr>]"

section \<open>Evaluation rules\<close>

declare natToString.simps [simp del]

lemmas js_eval = str_def parsedOrZero_def cleaned_def parseFloat_def parseUnsigned_def isDigit_def
  isWhiteSpace_def decimalValue_def digitsValue_def exponentPart_def signedInteger_def isNaN_def
  Let_def

lemmas key_eval = getVal_def Object_keys_def Object_entries_def isArrayIndex_def normalizeKey_def
  toLowerCase_def lowerUnit_def keptInKey_def isDigit_def str_def Let_def

lemmas ko_defs = ko_project_def ko_site_def ko_year_def ko_nyeon_def ko_nyeondo_def ko_month_def
  ko_progress_def ko_status_def ko_address_def ko_detail_address_def ko_latitude_def
  ko_longitude_def ko_designer_def ko_design_def ko_builder_def ko_contractor_def ko_contract_def
  ko_product_def ko_item_def ko_volume_def ko_count_def ko_spec_amount_def ko_spec_def
  ko_total_def

section \<open>The number coercer\<close>

lemma decimalValue_nonneg: "0 \<le> decimalValue ip fp e"
  by (simp add: decimalValue_def Let_def)

lemma parseUnsigned_cases:
  "parseUnsigned r = NaN \<or> parseUnsigned r = PInf \<or> (\<exists>q. 0 \<le> q \<and> parseUnsigned r = Fin q)"
  by (auto simp: parseUnsigned_def Let_def decimalValue_nonneg split: list.splits)

lemma cleaned_no_space: "dropWhile isWhiteSpace (cleaned s) = cleaned s"
proof (cases "cleaned s")
  case Nil
  then show ?thesis by simp
next
  case (Cons c cs)
  then have "c \<in> set (cleaned s)" by simp
  then have "isDigit c \<or> c = 46" by (simp add: cleaned_def)
  then have "\<not> isWhiteSpace c" by (auto simp: isDigit_def isWhiteSpace_def)
  with Cons show ?thesis by simp
qed

text \<open>What is left after the cleaning has no sign and no leading white space.\<close>

lemma parseFloat_cleaned: "parseFloat (cleaned s) = parseUnsigned (cleaned s)"
proof (cases "cleaned s")
  case Nil
  then show ?thesis by (simp add: parseFloat_def parseUnsigned_def str_def)
next
  case (Cons c cs)
  then have "c \<in> set (cleaned s)" by simp
  then have "isDigit c \<or> c = 46" by (simp add: cleaned_def)
  then have "c \<noteq> 43 \<and> c \<noteq> 45" by (auto simp: isDigit_def)
  with Cons cleaned_no_space [of s] show ?thesis by (simp add: parseFloat_def)
qed

lemma parsedOrZero_nonneg: "js_le (Fin 0) (parsedOrZero s)"
  using parseUnsigned_cases [of "cleaned s"]
  by (auto simp: parsedOrZero_def parseFloat_cleaned isNaN_def)

lemma parsedOrZero_not_NaN: "parsedOrZero s \<noteq> NaN"
  by (simp add: parsedOrZero_def isNaN_def Let_def)

lemma parseNum_nonneg: "\<forall>n. v \<noteq> VNum n \<Longrightarrow> js_le (Fin 0) (parseNum v)"
  by (cases v) (simp_all add: parsedOrZero_nonneg)

text \<open>
  Claim C2, as the code has it. \<open>parseNum\<close> is a total function: no input makes it fail.
  Its result is \<open>NaN\<close> for exactly one input, the number \<open>NaN\<close> itself, which passes
  through like every number. An absent or empty input gives 0, a number is returned
  unchanged, and a string whose digits and points do not parse gives 0.
\<close>

theorem parseNum_NaN_only_passed_through:
  "(parseNum v = NaN \<longleftrightarrow> v = VNum NaN)
   \<and> parseNum VUndefined = Fin 0 \<and> parseNum VNull = Fin 0 \<and> parseNum (VStr []) = Fin 0
   \<and> parseNum (VNum n) = n
   \<and> (parseFloat (cleaned s) = NaN \<longrightarrow> parseNum (VStr s) = Fin 0)"
proof -
  have "parseNum v = NaN \<longleftrightarrow> v = VNum NaN"
    by (cases v) (simp_all add: parsedOrZero_not_NaN)
  moreover have "parseFloat (cleaned s) = NaN \<longrightarrow> parseNum (VStr s) = Fin 0"
    by (simp add: parsedOrZero_def isNaN_def)
  ultimately show ?thesis by simp
qed

theorem parseNum_NaN_only_passed_through_witness:
  "parseFloat (cleaned (str ''n/a'')) = NaN \<and> parseNum (VStr (str ''n/a'')) = Fin 0
   \<and> parseNum (VNum (Fin 7)) = Fin 7"
  using parseNum_NaN_only_passed_through [of "VNum NaN" "Fin 7" "str ''n/a''"]
  by (simp add: js_eval)

text \<open>
  Claim C2 as stated fails: the input \<open>NaN\<close> is a number, so it is returned as it is.
\<close>

theorem parseNum_returns_NaN: "parseNum (VNum NaN) = NaN"
  by simp

section \<open>The record normaliser\<close>

lemma parseRow_project_name:
  "project_name (parseRow h idx row) = toStr h (orElse (getVal row project_name_aliases) (VStr []))"
  by (simp add: parseRow_def)


lemma parseRow_latitude:
  "latitude (parseRow h idx row) =
     numOrNull (parseFloat (toStr h (orElse (getVal row latitude_aliases) (VStr []))))"
  by (simp add: parseRow_def)

lemma parseRow_longitude:
  "longitude (parseRow h idx row) =
     numOrNull (parseFloat (toStr h (orElse (getVal row longitude_aliases) (VStr []))))"
  by (simp add: parseRow_def)

lemma parseRow_address:
  "address (parseRow h idx row) = toStr h (orElse (getVal row address_aliases) (VStr (str ''-'')))"
  by (simp add: parseRow_def)

lemma parseRow_quantity: "quantity (parseRow h idx row) = parseNum (getVal row quantity_aliases)"
  by (simp add: parseRow_def)

lemma parseRow_spec_amount:
  "spec_amount (parseRow h idx row) = parseNum (getVal row spec_amount_aliases)"
  by (simp add: parseRow_def)

lemma handleFileUpload_parsed_single:
  "handleFileUpload_parsed h [row] =
     (if project_name (parseRow h 0 row) = [] then [] else [parseRow h 0 row])"
  by (simp add: handleFileUpload_parsed_def enumerate_eq_zip)


lemma handleFileUpload_parsed_source:
  assumes "r \<in> set (handleFileUpload_parsed h json)"
  shows "\<exists>idx < length json. r = parseRow h idx (json ! idx)"
proof -
  from assms obtain p where p: "p \<in> set (enumerate 0 json)" "r = parseRow h (fst p) (snd p)"
    by (auto simp: handleFileUpload_parsed_def)
  from p(1) have "fst p < length json \<and> snd p = json ! fst p"
    by (simp add: in_set_enumerate_eq)
  with p show ?thesis by auto
qed

lemma numOrNull_None: "numOrNull n = None \<longleftrightarrow> falsyNum n"
  by (simp add: numOrNull_def)

subsection \<open>The example rows\<close>

lemma row_half_name: "getVal row_half project_name_aliases = VStr (str ''P1'')"
  by (simp add: row_half_def project_name_aliases_def ko_defs key_eval)

lemma row_half_lat: "getVal row_half latitude_aliases = VStr (str ''37.5'')"
  by (simp add: row_half_def latitude_aliases_def ko_defs key_eval)

lemma row_half_lon: "getVal row_half longitude_aliases = VStr (str ''abc'')"
  by (simp add: row_half_def longitude_aliases_def ko_defs key_eval)

lemma row_half_addr: "getVal row_half address_aliases = VStr (str ''Seoul City Hall'')"
  by (simp add: row_half_def address_aliases_def ko_defs key_eval)

lemma row_half_parsed:
  "handleFileUpload_parsed plain_host [row_half] = [parseRow plain_host 0 row_half]"
  by (simp add: handleFileUpload_parsed_single parseRow_project_name row_half_name orElse_def
      str_def)

lemma row_half_latitude: "latitude (parseRow plain_host 0 row_half) = Some (Fin (75 / 2))"
  by (simp add: parseRow_latitude row_half_lat orElse_def numOrNull_def falsyNum_def js_eval)

lemma row_half_longitude: "longitude (parseRow plain_host 0 row_half) = None"
  by (simp add: parseRow_longitude row_half_lon orElse_def numOrNull_def falsyNum_def js_eval)

lemma row_half_address: "address (parseRow plain_host 0 row_half) = str ''Seoul City Hall''"
  by (simp add: parseRow_address row_half_addr orElse_def str_def)

text \<open>
  Claim C1, as the code has it. Every record of the normaliser comes from one decoded
  row, and each of its two coordinates is decided by its own cell alone: it is \<open>null\<close>
  exactly when the parse of that cell is \<open>NaN\<close> or 0. Nothing pairs the two fields.
\<close>

theorem coordinates_parsed_independently:
  "r \<in> set (handleFileUpload_parsed h json) \<Longrightarrow>
     \<exists>idx < length json. r = parseRow h idx (json ! idx)
       \<and> (latitude r = None \<longleftrightarrow>
            falsyNum (parseFloat (toStr h (orElse (getVal (json ! idx) latitude_aliases) (VStr [])))))
       \<and> (longitude r = None \<longleftrightarrow>
            falsyNum (parseFloat (toStr h (orElse (getVal (json ! idx) longitude_aliases) (VStr [])))))"
proof -
  assume "r \<in> set (handleFileUpload_parsed h json)"
  then obtain idx where "idx < length json" "r = parseRow h idx (json ! idx)"
    using handleFileUpload_parsed_source by blast
  then show ?thesis
    by (auto simp: parseRow_latitude parseRow_longitude numOrNull_None)
qed

theorem coordinates_parsed_independently_witness:
  "parseRow plain_host 0 row_half \<in> set (handleFileUpload_parsed plain_host [row_half])
   \<and> (\<exists>idx < length [row_half]. parseRow plain_host 0 row_half = parseRow plain_host idx ([row_half] ! idx)
       \<and> (latitude (parseRow plain_host 0 row_half) = None \<longleftrightarrow>
            falsyNum (parseFloat (toStr plain_host
              (orElse (getVal ([row_half] ! idx) latitude_aliases) (VStr [])))))
       \<and> (longitude (parseRow plain_host 0 row_half) = None \<longleftrightarrow>
            falsyNum (parseFloat (toStr plain_host
              (orElse (getVal ([row_half] ! idx) longitude_aliases) (VStr []))))))"
proof -
  have m: "parseRow plain_host 0 row_half \<in> set (handleFileUpload_parsed plain_host [row_half])"
    by (simp add: row_half_parsed)
  from coordinates_parsed_independently [OF m] m show ?thesis by blast
qed

text \<open>
  Claim C1 as stated fails: a row whose latitude cell is \<open>37.5\<close> and whose longitude cell
  is \<open>abc\<close> becomes a record with latitude 37.5 and longitude \<open>null\<close>.
\<close>

theorem half_resolved_coordinates:
  "map latitude (handleFileUpload_parsed plain_host [row_half]) = [Some (Fin (75 / 2))]
   \<and> map longitude (handleFileUpload_parsed plain_host [row_half]) = [None]"
  by (simp add: row_half_parsed row_half_latitude row_half_longitude)





section \<open>Non-negative measures\<close>

text \<open>
  Claim C7, as the code has it. The quantity and the amount of a record are \<open>parseNum\<close>
  of their cells. A numeric cell passes through unchanged, whatever its sign; every other
  cell (text, boolean, absent) gives a number that is at least 0.
\<close>

theorem measures_nonneg_unless_numeric_cell:
  "quantity (parseRow h idx row) = parseNum (getVal row quantity_aliases)
   \<and> spec_amount (parseRow h idx row) = parseNum (getVal row spec_amount_aliases)
   \<and> parseNum (VNum n) = n
   \<and> ((\<forall>m. v \<noteq> VNum m) \<longrightarrow> js_le (Fin 0) (parseNum v))"
  by (simp add: parseRow_quantity parseRow_spec_amount parseNum_nonneg)

theorem measures_nonneg_unless_numeric_cell_witness:
  "(\<forall>m. VStr (str ''-5'') \<noteq> VNum m) \<and> js_le (Fin 0) (parseNum (VStr (str ''-5'')))
   \<and> parseNum (VStr (str ''-5'')) = Fin 5"
  using measures_nonneg_unless_numeric_cell [of plain_host 0 "[]" NaN "VStr (str ''-5'')"]
  by (simp add: js_eval)

lemma row_negative_quantity: "getVal row_negative quantity_aliases = VNum (Fin (- 5))"
  by (simp add: row_negative_def quantity_aliases_def ko_defs key_eval)

lemma row_negative_spec_amount: "getVal row_negative spec_amount_aliases = VNum (Fin (- 5))"
  by (simp add: row_negative_def spec_amount_aliases_def ko_defs key_eval)

lemma row_negative_name: "getVal row_negative project_name_aliases = VStr (str ''P1'')"
  by (simp add: row_negative_def project_name_aliases_def ko_defs key_eval)

lemma row_negative_parsed:
  "handleFileUpload_parsed plain_host [row_negative] = [parseRow plain_host 0 row_negative]"
  by (simp add: handleFileUpload_parsed_single parseRow_project_name row_negative_name orElse_def
      str_def)

text \<open>
  Claim C7 as stated fails: a row whose quantity and total cells hold the number \<open>-5\<close>
  becomes a record with quantity \<open>-5\<close> and amount \<open>-5\<close>.
\<close>

theorem negative_measures_pass_through:
  "map quantity (handleFileUpload_parsed plain_host [row_negative]) = [Fin (- 5)]
   \<and> map spec_amount (handleFileUpload_parsed plain_host [row_negative]) = [Fin (- 5)]
   \<and> \<not> js_le (Fin 0) (Fin (- 5))"
  by (simp add: row_negative_parsed parseRow_quantity parseRow_spec_amount row_negative_quantity
      row_negative_spec_amount)


section \<open>Candidates for geocoding\<close>

lemma missing_numOrNull: "missing (numOrNull n) \<longleftrightarrow> numOrNull n = None"
  by (simp add: missing_def numOrNull_def)

lemma isCandidate_part000_eq: "isCandidate_part000 d = isCandidate d"
  by (auto simp: isCandidate_part000_def isCandidate_def str_def)

lemma isCandidate_parseRow:
  "isCandidate (parseRow h idx row) \<longleftrightarrow>
     (latitude (parseRow h idx row) = None \<or> longitude (parseRow h idx row) = None)
     \<and> address (parseRow h idx row) \<noteq> str ''-'' \<and> 5 < length (address (parseRow h idx row))"
  by (auto simp: isCandidate_def parseRow_latitude parseRow_longitude missing_numOrNull)

lemma set_uniqueOf: "set (uniqueOf xs) = set xs"
  by (induction xs) auto

lemma distinct_uniqueOf: "distinct (uniqueOf xs)"
  by (induction xs) (simp_all add: distinct_removeAll)

lemma uniqueOf_single: "xs \<noteq> [] \<Longrightarrow> set xs \<subseteq> {a} \<Longrightarrow> uniqueOf xs = [a]"
proof (induction xs)
  case Nil
  then show ?case by simp
next
  case (Cons x xs)
  then have "x = a" and "set (uniqueOf xs) \<subseteq> {a}"
    by (auto simp: set_uniqueOf)
  then have "removeAll a (uniqueOf xs) = []"
    by (auto simp: removeAll_filter_not_eq filter_empty_conv)
  with \<open>x = a\<close> show ?case by simp
qed

text \<open>A lookup sends the request for its address when the address can be encoded, and nothing else.\<close>

lemma geocodeAddress_sent:
  "snd (geocodeAddress service addr sent) =
     sent @ (case requestUrl addr of None \<Rightarrow> [] | Some url \<Rightarrow> [url])"
  by (simp add: geocodeAddress_def split: option.splits response.splits list.splits prod.splits)

lemma geocodeLoop_sent:
  "geocodeLoop service addrs sent = sent @ List.map_filter requestUrl addrs"
  by (induction addrs arbitrary: sent)
    (simp_all add: geocodeAddress_sent List.map_filter_simps split: option.splits)

lemma processAndSaveData_requests:
  "processAndSaveData service rawData =
     List.map_filter requestUrl (uniqueOf (map address (filter isCandidate rawData)))"
  by (simp add: processAndSaveData_def Let_def geocodeLoop_sent List.map_filter_simps)

lemma processAndSaveData_part000_eq:
  "processAndSaveData_part000 service rawData = processAndSaveData service rawData"
proof -
  have "isCandidate_part000 = isCandidate"
    by (rule ext) (rule isCandidate_part000_eq)
  then show ?thesis
    by (simp add: processAndSaveData_part000_def processAndSaveData_def)
qed

lemma set_map_filter: "set (List.map_filter f xs) = {y. \<exists>x \<in> set xs. f x = Some y}"
  by (induction xs) (auto simp: List.map_filter_simps split: option.splits)

lemma length_map_filter: "length (List.map_filter f xs) \<le> length xs"
  by (induction xs) (simp_all add: List.map_filter_simps split: option.splits)

text \<open>
  Claim C4, as the code has it. A normalised record is a candidate exactly when at least
  one of its two coordinates is absent, its address is not the placeholder and its address
  is longer than 5. Every request sent to the service is the request for the address of a
  candidate, and nothing else is requested. The test of the second source file, which
  leaves out the comparison with the placeholder, selects the same records.
\<close>

theorem candidate_iff_a_coordinate_absent:
  "r \<in> set (handleFileUpload_parsed h json) \<Longrightarrow>
     (isCandidate r \<longleftrightarrow>
        (latitude r = None \<or> longitude r = None) \<and> address r \<noteq> str ''-'' \<and> 5 < length (address r))
     \<and> isCandidate_part000 r = isCandidate r
     \<and> set (processAndSaveData service (handleFileUpload_parsed h json)) =
         {url. \<exists>d \<in> set (handleFileUpload_parsed h json).
                 isCandidate d \<and> requestUrl (address d) = Some url}"
proof -
  assume "r \<in> set (handleFileUpload_parsed h json)"
  then obtain idx where "r = parseRow h idx (json ! idx)"
    using handleFileUpload_parsed_source by blast
  then have "isCandidate r \<longleftrightarrow>
      (latitude r = None \<or> longitude r = None) \<and> address r \<noteq> str ''-'' \<and> 5 < length (address r)"
    by (simp only: isCandidate_parseRow)
  moreover have "set (processAndSaveData service (handleFileUpload_parsed h json)) =
      {url. \<exists>d \<in> set (handleFileUpload_parsed h json).
              isCandidate d \<and> requestUrl (address d) = Some url}"
    by (auto simp: processAndSaveData_requests set_map_filter set_uniqueOf)
  ultimately show ?thesis
    by (simp add: isCandidate_part000_eq)
qed

lemmas uri_eval = requestUrl_def uriUnescaped_def isDigit_def isTrailSurrogate_def
  isLeadSurrogate_def utf8_def percentEncoded_def hexDigit_def str_def

lemma requestUrl_Seoul:
  "requestUrl (str ''Seoul City Hall'') =
     Some (str ''https://nominatim.openstreetmap.org/search?format=json&q=Seoul%20City%20Hall&limit=1'')"
  by (simp add: uri_eval)

lemma requestUrl_unpaired: "requestUrl unpaired_address = None"
  by (simp add: unpaired_address_def uri_eval)

lemma row_half_candidate: "isCandidate (parseRow plain_host 0 row_half)"
  by (simp add: isCandidate_parseRow row_half_longitude row_half_address str_def)

theorem candidate_iff_a_coordinate_absent_witness:
  "parseRow plain_host 0 row_half \<in> set (handleFileUpload_parsed plain_host [row_half])
   \<and> isCandidate (parseRow plain_host 0 row_half)
   \<and> longitude (parseRow plain_host 0 row_half) = None
   \<and> set (processAndSaveData (\<lambda>url. NotOk) (handleFileUpload_parsed plain_host [row_half])) =
       {str ''https://nominatim.openstreetmap.org/search?format=json&q=Seoul%20City%20Hall&limit=1''}"
proof -
  have m: "parseRow plain_host 0 row_half \<in> set (handleFileUpload_parsed plain_host [row_half])"
    by (simp add: row_half_parsed)
  from candidate_iff_a_coordinate_absent [OF m, of "\<lambda>url. NotOk"]
  have "set (processAndSaveData (\<lambda>url. NotOk) (handleFileUpload_parsed plain_host [row_half])) =
      {url. \<exists>d \<in> set (handleFileUpload_parsed plain_host [row_half]).
              isCandidate d \<and> requestUrl (address d) = Some url}"
    by blast
  moreover have "{url. \<exists>d \<in> set (handleFileUpload_parsed plain_host [row_half]).
              isCandidate d \<and> requestUrl (address d) = Some url} =
      {str ''https://nominatim.openstreetmap.org/search?format=json&q=Seoul%20City%20Hall&limit=1''}"
    using row_half_candidate
    by (auto simp: row_half_parsed row_half_address requestUrl_Seoul)
  ultimately show ?thesis
    using m row_half_candidate row_half_longitude by simp
qed

text \<open>
  Claim C4 as stated fails: the record of the row with latitude cell \<open>37.5\<close> and
  longitude cell \<open>abc\<close> has a latitude, so its coordinates are not both absent, and it is a
  candidate.
\<close>

theorem candidate_with_one_coordinate:
  "map isCandidate (handleFileUpload_parsed plain_host [row_half]) = [True]
   \<and> map latitude (handleFileUpload_parsed plain_host [row_half]) = [Some (Fin (75 / 2))]"
  by (simp add: row_half_parsed row_half_candidate row_half_latitude)

text \<open>
  Claim C5, as the code has it. A run looks up the distinct addresses of the candidates,
  each once and in the order of first occurrence. A lookup calls the service once when its
  address can be percent-encoded and not at all when it cannot, so the requests of the run
  are the requests for the distinct addresses that can be encoded, and there are at most
  as many requests as distinct addresses. When there is a candidate and all candidates
  have the address \<open>a\<close>, the run sends the single request for \<open>a\<close>, however many
  candidates there are, or no request when \<open>a\<close> cannot be encoded. The second source
  file sends the same requests.
\<close>

theorem each_address_requested_at_most_once:
  "processAndSaveData service rawData =
     List.map_filter requestUrl (uniqueOf (map address (filter isCandidate rawData)))
   \<and> distinct (uniqueOf (map address (filter isCandidate rawData)))
   \<and> set (uniqueOf (map address (filter isCandidate rawData))) =
       address ` {d \<in> set rawData. isCandidate d}
   \<and> length (processAndSaveData service rawData) \<le>
       length (uniqueOf (map address (filter isCandidate rawData)))
   \<and> processAndSaveData_part000 service rawData = processAndSaveData service rawData
   \<and> ((\<exists>d \<in> set rawData. isCandidate d) \<and> (\<forall>d \<in> set rawData. isCandidate d \<longrightarrow> address d = a)
        \<longrightarrow> processAndSaveData service rawData =
              (case requestUrl a of None \<Rightarrow> [] | Some url \<Rightarrow> [url]))"
proof -
  let ?c = "filter isCandidate rawData"
  have "uniqueOf (map address ?c) = [a]"
    if "\<exists>d \<in> set rawData. isCandidate d" and "\<forall>d \<in> set rawData. isCandidate d \<longrightarrow> address d = a"
  proof (rule uniqueOf_single)
    from that(1) show "map address ?c \<noteq> []"
      by (auto simp: filter_empty_conv)
    from that(2) show "set (map address ?c) \<subseteq> {a}"
      by auto
  qed
  then have "processAndSaveData service rawData =
      (case requestUrl a of None \<Rightarrow> [] | Some url \<Rightarrow> [url])"
    if "\<exists>d \<in> set rawData. isCandidate d" and "\<forall>d \<in> set rawData. isCandidate d \<longrightarrow> address d = a"
    using that
    by (simp add: processAndSaveData_requests List.map_filter_simps split: option.splits)
  moreover have "set (uniqueOf (map address ?c)) = address ` {d \<in> set rawData. isCandidate d}"
    by (auto simp: set_uniqueOf)
  moreover have "length (processAndSaveData service rawData) \<le> length (uniqueOf (map address ?c))"
    by (simp add: processAndSaveData_requests length_map_filter)
  ultimately show ?thesis
    using processAndSaveData_requests [of service rawData]
      processAndSaveData_part000_eq [of service rawData] distinct_uniqueOf [of "map address ?c"]
    by blast
qed

lemma candidate_no_coords: "isCandidate (no_coords i)"
  by (simp add: isCandidate_def no_coords_def missing_def str_def)

lemma address_no_coords: "address (no_coords i) = str ''Seoul City Hall''"
  by (simp add: no_coords_def)

theorem each_address_requested_at_most_once_witness:
  "isCandidate (no_coords 0) \<and> isCandidate (no_coords 1) \<and> isCandidate (no_coords 2)
   \<and> map address [no_coords 0, no_coords 1, no_coords 2] =
       [str ''Seoul City Hall'', str ''Seoul City Hall'', str ''Seoul City Hall'']
   \<and> processAndSaveData (\<lambda>url. NotOk) [no_coords 0, no_coords 1, no_coords 2] =
       [str ''https://nominatim.openstreetmap.org/search?format=json&q=Seoul%20City%20Hall&limit=1'']"
proof -
  have 1: "\<exists>d \<in> set [no_coords 0, no_coords 1, no_coords 2]. isCandidate d"
    by (simp add: candidate_no_coords)
  have 2: "\<forall>d \<in> set [no_coords 0, no_coords 1, no_coords 2].
      isCandidate d \<longrightarrow> address d = str ''Seoul City Hall''"
    by (simp add: address_no_coords)
  from each_address_requested_at_most_once
    [of "\<lambda>url. NotOk" "[no_coords 0, no_coords 1, no_coords 2]" "str ''Seoul City Hall''"] 1 2
  have "processAndSaveData (\<lambda>url. NotOk) [no_coords 0, no_coords 1, no_coords 2] =
      (case requestUrl (str ''Seoul City Hall'') of None \<Rightarrow> [] | Some url \<Rightarrow> [url])"
    by blast
  then show ?thesis
    by (simp add: candidate_no_coords address_no_coords requestUrl_Seoul)
qed

text \<open>
  Claim C5 as stated fails: two candidates share one address that begins with an unpaired
  surrogate. \<open>encodeURIComponent\<close> throws on it before \<open>fetch\<close> is called, so the run
  sends no request, although the service would answer.
\<close>

theorem unencodable_address_sends_no_request:
  "map isCandidate unpaired_records = [True, True]
   \<and> map address unpaired_records = [unpaired_address, unpaired_address]
   \<and> processAndSaveData (\<lambda>url. Json [(str ''37.5665'', str ''126.9780'')]) unpaired_records = []"
proof -
  have c: "isCandidate ((no_coords i)\<lparr>address := unpaired_address\<rparr>)" for i
    by (simp add: isCandidate_def no_coords_def missing_def unpaired_address_def str_def)
  have "uniqueOf [unpaired_address, unpaired_address] = [unpaired_address]"
    by simp
  then show ?thesis
    by (simp add: unpaired_records_def c processAndSaveData_requests List.map_filter_simps
        requestUrl_unpaired)
qed

section \<open>A coordinate that parses to zero\<close>

lemma row_zero_lat: "getVal row_zero latitude_aliases = VStr (str ''0'')"
  by (simp add: row_zero_def latitude_aliases_def ko_defs key_eval)

lemma row_zero_lon: "getVal row_zero longitude_aliases = VStr (str ''0.0'')"
  by (simp add: row_zero_def longitude_aliases_def ko_defs key_eval)

lemma row_zero_addr: "getVal row_zero address_aliases = VStr (str ''Null Island Pier'')"
  by (simp add: row_zero_def address_aliases_def ko_defs key_eval)

lemma row_zero_no_address_name: "getVal row_zero_no_address project_name_aliases = VStr (str ''P1'')"
  by (simp add: row_zero_no_address_def project_name_aliases_def ko_defs key_eval)

lemma row_zero_no_address_lat: "getVal row_zero_no_address latitude_aliases = VStr (str ''0'')"
  by (simp add: row_zero_no_address_def latitude_aliases_def ko_defs key_eval)

lemma row_zero_no_address_addr: "getVal row_zero_no_address address_aliases = VUndefined"
  by (simp add: row_zero_no_address_def address_aliases_def ko_defs key_eval)

lemma row_zero_no_address_parsed:
  "handleFileUpload_parsed plain_host [row_zero_no_address] =
     [parseRow plain_host 0 row_zero_no_address]"
  by (simp add: handleFileUpload_parsed_single parseRow_project_name row_zero_no_address_name
      orElse_def str_def)

text \<open>
  Claim C9, as the code has it. When the latitude cell or the longitude cell of a row
  parses to 0, that coordinate of the record is \<open>null\<close>, not 0, so the record counts as
  lacking coordinates; it is then a candidate exactly when its address is not the
  placeholder and is longer than 5.
\<close>

theorem zero_coordinate_is_stored_as_null:
  "(parseFloat (toStr h (orElse (getVal row latitude_aliases) (VStr []))) = Fin 0 \<longrightarrow>
      latitude (parseRow h idx row) = None \<and> missing (latitude (parseRow h idx row))
      \<and> (isCandidate (parseRow h idx row) \<longleftrightarrow>
           address (parseRow h idx row) \<noteq> str ''-'' \<and> 5 < length (address (parseRow h idx row))))
   \<and> (parseFloat (toStr h (orElse (getVal row longitude_aliases) (VStr []))) = Fin 0 \<longrightarrow>
      longitude (parseRow h idx row) = None \<and> missing (longitude (parseRow h idx row))
      \<and> (isCandidate (parseRow h idx row) \<longleftrightarrow>
           address (parseRow h idx row) \<noteq> str ''-'' \<and> 5 < length (address (parseRow h idx row))))"
proof -
  have "latitude (parseRow h idx row) = None"
    if "parseFloat (toStr h (orElse (getVal row latitude_aliases) (VStr []))) = Fin 0"
    using that by (simp add: parseRow_latitude numOrNull_def falsyNum_def)
  moreover have "longitude (parseRow h idx row) = None"
    if "parseFloat (toStr h (orElse (getVal row longitude_aliases) (VStr []))) = Fin 0"
    using that by (simp add: parseRow_longitude numOrNull_def falsyNum_def)
  ultimately show ?thesis
    by (auto simp: isCandidate_parseRow missing_def)
qed

theorem zero_coordinate_is_stored_as_null_witness:
  "parseFloat (toStr plain_host (orElse (getVal row_zero latitude_aliases) (VStr []))) = Fin 0
   \<and> parseFloat (toStr plain_host (orElse (getVal row_zero longitude_aliases) (VStr []))) = Fin 0
   \<and> latitude (parseRow plain_host 0 row_zero) = None
   \<and> longitude (parseRow plain_host 0 row_zero) = None
   \<and> isCandidate (parseRow plain_host 0 row_zero)"
proof -
  have 1: "parseFloat (toStr plain_host (orElse (getVal row_zero latitude_aliases) (VStr []))) = Fin 0"
    by (simp add: row_zero_lat orElse_def js_eval)
  have 2: "parseFloat (toStr plain_host (orElse (getVal row_zero longitude_aliases) (VStr []))) = Fin 0"
    by (simp add: row_zero_lon orElse_def js_eval)
  have 3: "address (parseRow plain_host 0 row_zero) = str ''Null Island Pier''"
    by (simp add: parseRow_address row_zero_addr orElse_def str_def)
  from zero_coordinate_is_stored_as_null [of plain_host row_zero 0] 1 2 3 show ?thesis
    by (simp add: str_def)
qed

text \<open>
  Claim C9 as stated fails in its last part: the record of a row whose latitude cell is
  \<open>0\<close> and which has no address cell has no latitude, and it is not a candidate.
\<close>

theorem zero_latitude_without_address_not_candidate:
  "map latitude (handleFileUpload_parsed plain_host [row_zero_no_address]) = [None]
   \<and> map isCandidate (handleFileUpload_parsed plain_host [row_zero_no_address]) = [False]"
proof -
  have "latitude (parseRow plain_host 0 row_zero_no_address) = None"
    by (simp add: parseRow_latitude row_zero_no_address_lat orElse_def numOrNull_def falsyNum_def
        js_eval)
  moreover have "address (parseRow plain_host 0 row_zero_no_address) = str ''-''"
    by (simp add: parseRow_address row_zero_no_address_addr orElse_def)
  ultimately show ?thesis
    by (simp add: row_zero_no_address_parsed isCandidate_parseRow)
qed


section \<open>Aggregation of the empty record set\<close>

lemma top5_empty: "top5 h [] = []"
  by (simp add: top5_def Object_entries_def Array_sort_def)

text \<open>
  Claim C8, as the code has it. On the empty record set the filter gives the empty set,
  the summary has project count 0, total 0 and two empty rankings, and the year trend and
  the designer trend are empty. The month trend is never empty: it always has its twelve
  points, here all with the value 0. The functions are total, so nothing is raised.
\<close>

theorem aggregation_of_empty_set:
  "filteredData [] selectedYear selectedMonth = []
   \<and> summary h [] = \<lparr>siteCount = 0, totalSpec = Fin 0, top3Cons = [], top3Des = []\<rparr>
   \<and> yearTrend (trends h [] [] selectedYear) = []
   \<and> designerTrend (trends h [] [] selectedYear) = []
   \<and> monthTrend (trends h [] [] selectedYear) =
       map (\<lambda>i. \<lparr>point_label = natToString (i + 1) @ ko_month, point_value = VNum (Fin 0)\<rparr>)
         [0..<12]"
proof -
  have "summary h [] = \<lparr>siteCount = 0, totalSpec = Fin 0, top3Cons = [], top3Des = []\<rparr>"
    by (simp add: summary_def top5_empty)
  moreover have "yearTrend (trends h [] [] selectedYear) = []"
    by (simp add: trends_def Let_def Object_entries_def Array_sort_def)
  moreover have "designerTrend (trends h [] [] selectedYear) = []"
    by (simp add: trends_def Let_def Object_entries_def Array_sort_def)
  moreover have "monthTrend (trends h [] [] selectedYear) =
       map (\<lambda>i. \<lparr>point_label = natToString (i + 1) @ ko_month, point_value = VNum (Fin 0)\<rparr>)
         [0..<12]"
    by (simp add: trends_def Let_def)
  ultimately show ?thesis
    by (simp add: filteredData_def)
qed

text \<open>Claim C8 as stated fails for the month trend: it has twelve points.\<close>

theorem month_trend_of_empty_set_not_empty:
  "length (monthTrend (trends plain_host [] [] (Fin 0))) = 12"
  by (simp add: trends_def Let_def)

section \<open>The two variants of the summary\<close>

lemma sale_fields:
  "constructor (sale c ds a) = c" "designer (sale c ds a) = ds" "spec_amount (sale c ds a) = Fin a"
  by (simp_all add: sale_def)

lemma plain_host_fields:
  "roundToNumber plain_host = Fin" "numberToString plain_host = plainNumberToString"
  "functionSource plain_host k =
     str ''function '' @ (if k = str ''constructor'' then str ''Object'' else k)
     @ str ''() { [native code] }''"
  by (simp_all add: plain_host_def)

lemma top5_single: "top5 h [(k, v)] = [\<lparr>name = k, amount = v\<rparr>]"
  by (simp add: top5_def Object_entries_def Array_sort_def)

lemma inheritedText_other: "inheritedText h ko_other = None"
  by (simp add: inheritedText_def prototypeFunctions_def ko_other_def str_def)

lemma inheritedText_placeholder: "inheritedText h (str ''-'') = None"
  by (simp add: inheritedText_def prototypeFunctions_def str_def)

text \<open>
  Claim C10 fails on the code. For one record whose constructor and designer are the
  placeholder, \<open>src/index.tsx\<close> ranks the catch-all label and \<open>src/unnamed/part_000\<close>
  ranks the placeholder itself.
\<close>

theorem placeholder_bucket_differs:
  "top3Cons (summary plain_host [sale (str ''-'') (str ''-'') 100]) =
     [\<lparr>name = ko_other, amount = VNum (Fin 100)\<rparr>]
   \<and> top3Cons (summary_part000 plain_host [sale (str ''-'') (str ''-'') 100]) =
       [\<lparr>name = str ''-'', amount = VNum (Fin 100)\<rparr>]
   \<and> top3Des (summary plain_host [sale (str ''-'') (str ''-'') 100]) =
       [\<lparr>name = ko_other, amount = VNum (Fin 100)\<rparr>]
   \<and> top3Des (summary_part000 plain_host [sale (str ''-'') (str ''-'') 100]) =
       [\<lparr>name = str ''-'', amount = VNum (Fin 100)\<rparr>]"
proof -
  have b: "bucket (str ''-'') = ko_other" "bucket_part000 (str ''-'') = str ''-''"
    by (simp_all add: bucket_def bucket_part000_def str_def)
  have 1: "foldl (summaryStep plain_host) ([], []) [sale (str ''-'') (str ''-'') 100]
      = ([(ko_other, VNum (Fin 100))], [(ko_other, VNum (Fin 100))])"
    by (simp add: summaryStep_def addTo_def b sale_fields numOrZero_def falsyNum_def
        inheritedText_other plain_host_fields Let_def)
  have 2: "foldl (summaryStep_part000 plain_host) ([], []) [sale (str ''-'') (str ''-'') 100]
      = ([(str ''-'', VNum (Fin 100))], [(str ''-'', VNum (Fin 100))])"
    by (simp add: summaryStep_part000_def addTo_def b sale_fields numOrZero_def falsyNum_def
        inheritedText_placeholder plain_host_fields Let_def)
  show ?thesis
    by (simp add: summary_def summary_part000_def Let_def 1 2 top5_single del: foldl.simps)
qed

text \<open>
  The two variants of the summary agree on every record set in which no constructor and
  no designer is the placeholder.
\<close>

lemma summaries_agree_without_placeholder:
  assumes "\<forall>d \<in> set fd. constructor d \<noteq> str ''-'' \<and> designer d \<noteq> str ''-''"
  shows "summary_part000 h fd = summary h fd"
proof -
  have "foldl (summaryStep_part000 h) maps fd = foldl (summaryStep h) maps fd" for maps
    using assms
    by (induction fd arbitrary: maps)
      (simp_all add: summaryStep_part000_def summaryStep_def bucket_part000_def bucket_def)
  then show ?thesis
    by (simp add: summary_part000_def summary_def)
qed

section \<open>The ranking\<close>

subsection \<open>The accumulation loop\<close>












subsection \<open>The sign of a difference of two sums\<close>






subsection \<open>Enumeration and sorting of the accumulated entries\<close>







subsection \<open>The ranking of an accumulated dictionary\<close>









subsection \<open>The examples\<close>



















subsection \<open>The rankings of the summary\<close>




end
